theory Spec2Isabelle
  imports Complex_Main
begin

section \<open>Result documents and alerts\<close>

text \<open>
  The frontend of the bat-tracking tool is a React application. Its state lives in
  \<^verbatim>\<open>useState\<close> cells; every handler runs to its next \<^verbatim>\<open>await\<close> without
  interruption (one thread, cooperative scheduling). The model keeps the cells in a
  record, turns every handler into a function on that record, and cuts an
  \<^verbatim>\<open>async\<close> function at its \<^verbatim>\<open>await\<close>s: a segment returns the new state, the
  effects it asked the browser for, and whether the function is suspended or settled.

  JavaScript numbers that the code only ever produces as integers (frame numbers,
  counts, pixel values from \<^verbatim>\<open>Math.floor\<close>) are \<open>int\<close>; the others (times, fps) are
  \<open>real\<close>, so the rounding of IEEE doubles is not modelled. Strings are \<open>string\<close>;
  the umlauts of the German messages are written as their Latin-1 code units.
\<close>

datatype alert_type = Success | Warning | Info | Error

record alert =
  message :: string
  type :: alert_type

text \<open>
  The objects of a result document. Two records of one theory cannot share a field name,
  so the fields \<^verbatim>\<open>frame\<close>, \<^verbatim>\<open>x\<close>, \<^verbatim>\<open>y\<close>, ... carry the name of their object as a prefix.
\<close>

record point =
  pt_x :: int
  pt_y :: int

record position =
  pos_frame :: int
  pos_x :: int
  pos_y :: int
  pos_width :: int
  pos_height :: int
  pos_timestamp :: string

record movement =
  mov_frame :: int
  mov_count :: int

text \<open>
  \<^verbatim>\<open>fps\<close> and \<^verbatim>\<open>videoDuration\<close> are absent from the document of the first hook variant
  (\<open>None\<close> is JavaScript's \<^verbatim>\<open>undefined\<close>).
\<close>

record analysis_result =
  totalFrames :: int
  batDetected :: bool
  detectionCount :: int
  startPoint :: point
  endPoint :: point
  analysisTime :: string
  fps :: "real option"
  videoDuration :: "real option"
  positions :: "position list"
  movementsPerFrame :: "movement list"

section \<open>Strings of numbers\<close>

text \<open>\<^verbatim>\<open>String(n)\<close> for an integer, and \<^verbatim>\<open>String.prototype.padStart\<close>.\<close>

definition digit :: "nat \<Rightarrow> char" where
  "digit d = ''0123456789'' ! d"

fun decimal :: "nat \<Rightarrow> string" where
  "decimal n = (if 10 \<le> n then decimal (n div 10) @ [digit (n mod 10)] else [digit n])"

declare decimal.simps [simp del]


definition padStart :: "nat \<Rightarrow> char \<Rightarrow> string \<Rightarrow> string" where
  "padStart n c s = replicate (n - length s) c @ s"

section \<open>The demo documents\<close>

text \<open>
  \<^verbatim>\<open>Math.random()\<close> is the only input of the generators. A \<open>random_source\<close> gives the
  value of its \<open>k\<close>-th call, counted from 0 in the order in which the object literal
  evaluates them: the properties from top to bottom, the length of an
  \<^verbatim>\<open>Array.from\<close> before its elements, the elements from index 0, and within one element
  its properties from top to bottom. \<^verbatim>\<open>Array.from({length: n}, f)\<close> with a negative
  \<open>n\<close> is the empty array, which is what \<open>nat\<close> gives.
\<close>

type_synonym random_source = "nat \<Rightarrow> real"

text \<open>The document of the second hook variant (App.jsx, lines 116 to 137).\<close>

definition dummy_position :: "random_source \<Rightarrow> nat \<Rightarrow> nat \<Rightarrow> position" where
  "dummy_position rnd base i =
     \<lparr> pos_frame = int i + 1,
       pos_x = \<lfloor>rnd (base + 4 * i) * 100\<rfloor>,
       pos_y = \<lfloor>rnd (base + 4 * i + 1) * 100\<rfloor>,
       pos_width = \<lfloor>rnd (base + 4 * i + 2) * 20\<rfloor> + 10,
       pos_height = \<lfloor>rnd (base + 4 * i + 3) * 30\<rfloor> + 15,
       pos_timestamp = ''00:00:'' @ padStart 2 (CHR ''0'') (decimal (i + 1)) \<rparr>"

definition dummy_movement :: "random_source \<Rightarrow> nat \<Rightarrow> nat \<Rightarrow> movement" where
  "dummy_movement rnd base i =
     \<lparr> mov_frame = int i + 1, mov_count = \<lfloor>rnd (base + i) * 5\<rfloor> \<rparr>"

definition dummyResult :: "random_source \<Rightarrow> analysis_result" where
  "dummyResult rnd =
     (let n = nat (\<lfloor>rnd 8 * 50\<rfloor> + 10);
          m = nat (\<lfloor>rnd (9 + 4 * n) * 100\<rfloor> + 50)
      in \<lparr> totalFrames = \<lfloor>rnd 0 * 500\<rfloor> + 100,
           batDetected = (rnd 1 > 3 / 10),
           detectionCount = \<lfloor>rnd 2 * 50\<rfloor> + 10,
           startPoint = \<lparr> pt_x = \<lfloor>rnd 3 * 50\<rfloor> + 10, pt_y = \<lfloor>rnd 4 * 50\<rfloor> + 20 \<rparr>,
           endPoint = \<lparr> pt_x = \<lfloor>rnd 5 * 50\<rfloor> + 60, pt_y = \<lfloor>rnd 6 * 50\<rfloor> + 70 \<rparr>,
           analysisTime = ''00:01:23'',
           fps = Some 30,
           videoDuration = Some (of_int (\<lfloor>rnd 7 * 500\<rfloor> + 100) / 30),
           positions = map (dummy_position rnd 9) [0..<n],
           movementsPerFrame = map (dummy_movement rnd (10 + 4 * n)) [0..<m] \<rparr>)"

text \<open>The document of the first hook variant (App.jsx, lines 35 to 54).\<close>

definition dummy_position1 :: "random_source \<Rightarrow> nat \<Rightarrow> position" where
  "dummy_position1 rnd i =
     \<lparr> pos_frame = int i + 1,
       pos_x = \<lfloor>rnd (2 * i) * 100\<rfloor>,
       pos_y = \<lfloor>rnd (2 * i + 1) * 100\<rfloor>,
       pos_width = 15,
       pos_height = 30,
       pos_timestamp = ''00:00:'' @ padStart 2 (CHR ''0'') (decimal (i + 1)) \<rparr>"

definition dummyResult1 :: "random_source \<Rightarrow> analysis_result" where
  "dummyResult1 rnd =
     \<lparr> totalFrames = 100,
       batDetected = True,
       detectionCount = 42,
       startPoint = \<lparr> pt_x = 10, pt_y = 20 \<rparr>,
       endPoint = \<lparr> pt_x = 80, pt_y = 90 \<rparr>,
       analysisTime = ''00:01:23'',
       fps = None,
       videoDuration = None,
       positions = map (dummy_position1 rnd) [0..<100],
       movementsPerFrame =
         map (\<lambda>i. \<lparr> mov_frame = int i + 1, mov_count = \<lfloor>rnd (200 + i) * 10\<rfloor> \<rparr>) [0..<100] \<rparr>"

section \<open>The state of the upload view\<close>

text \<open>
  \<open>videoFile\<close> to \<open>alert\<close> are the state cells of \<^verbatim>\<open>UploadSection\<close>, \<open>loading\<close> and
  \<open>results\<close> those of the hook \<^verbatim>\<open>useVideoAnalysis\<close>, \<open>appResults\<close> and
  \<open>activeSection\<close> those of \<^verbatim>\<open>AppPage\<close> (reached through the props
  \<^verbatim>\<open>setResults\<close> and \<^verbatim>\<open>switchToResults\<close>). A file is known by its name. \<open>inflight\<close>
  is the runtime's list of suspended \<^verbatim>\<open>handleAnalyze\<close> calls, each with the
  \<^verbatim>\<open>await\<close> its \<^verbatim>\<open>analyzeVideo\<close> stands at; the code has no such cell. The object
  URL of the preview is not modelled.
\<close>

datatype phase = AwaitApi | AwaitDelay

record ui =
  videoFile :: "string option"
  startTime :: real
  endTime :: real
  duration :: real
  currentTime :: real
  alert :: "alert option"
  loading :: bool
  results :: "analysis_result option"
  appResults :: "analysis_result option"
  activeSection :: string
  inflight :: "phase list"

definition init_ui :: ui where
  "init_ui =
     \<lparr> videoFile = None, startTime = 0, endTime = 0, duration = 0, currentTime = 0,
       alert = None, loading = False, results = None, appResults = None,
       activeSection = ''home'', inflight = [] \<rparr>"

text \<open>
  What a segment asks of the browser: the call of \<^verbatim>\<open>analyzeVideoAPI\<close> (api-real.js,
  the only place that reaches the network) with its four arguments, and the timer of
  the simulated latency.
\<close>

datatype effect =
  CallApi "string option" real real "real option"
  | Delay nat

text \<open>
  A thrown value is an \<^verbatim>\<open>Error\<close> with its message, or \<^verbatim>\<open>null\<close>, or
  \<^verbatim>\<open>undefined\<close>; the \<^verbatim>\<open>.message\<close> of the last two cannot be read. api-real.js
  throws and passes on \<^verbatim>\<open>Error\<close> objects only. An async function settles by returning
  a document (or \<^verbatim>\<open>undefined\<close>) or by throwing.
\<close>

datatype thrown = JsError string | JsNull | JsUndefined

datatype settle = Returned "analysis_result option" | Thrown thrown

datatype progress = Suspended phase | Settled settle

type_synonym segment = "ui \<times> effect list \<times> progress"

text \<open>
  Reading \<^verbatim>\<open>.message\<close> of \<^verbatim>\<open>null\<close> or \<^verbatim>\<open>undefined\<close> throws a \<^verbatim>\<open>TypeError\<close>; its
  message names which of the two it was (the wording is that of V8, the engine of
  Chrome and Node).
\<close>

definition typeError_message :: "string \<Rightarrow> string" where
  "typeError_message what = ''Cannot read properties of '' @ what @ '' (reading 'message')''"

definition message_of :: "thrown \<Rightarrow> thrown + string" where
  "message_of e =
     (case e of
        JsError m \<Rightarrow> Inr m
      | JsNull \<Rightarrow> Inl (JsError (typeError_message ''null''))
      | JsUndefined \<Rightarrow> Inl (JsError (typeError_message ''undefined'')))"

text \<open>
  \<^verbatim>\<open>try { body } catch (error) { handler } finally { fin }\<close> around one segment of the
  body: a suspended body is still inside the \<^verbatim>\<open>try\<close>; a returned one runs \<open>fin\<close>; a
  thrown one runs the handler, then \<open>fin\<close>.
\<close>

definition try_catch_finally ::
  "segment \<Rightarrow> (thrown \<Rightarrow> ui \<Rightarrow> ui \<times> settle) \<Rightarrow> (ui \<Rightarrow> ui) \<Rightarrow> segment" where
  "try_catch_finally r handler fin =
     (case r of
        (s, eff, Suspended ph) \<Rightarrow> (s, eff, Suspended ph)
      | (s, eff, Settled (Returned v)) \<Rightarrow> (fin s, eff, Settled (Returned v))
      | (s, eff, Settled (Thrown e)) \<Rightarrow>
          (case handler e s of (s', c) \<Rightarrow> (fin s', eff, Settled c)))"

section \<open>The hook useVideoAnalysis\<close>

text \<open>
  The repository holds two variants of the hook: the first always answers with demo
  data, the second calls the backend when the build sets
  \<^verbatim>\<open>REACT_APP_USE_REAL_API\<close> to \<^verbatim>\<open>'true'\<close> (\<open>None\<close> is an unset variable).
\<close>

datatype hook_variant = DemoOnly | RealWithFallback

definition useRealAPI :: "string option \<Rightarrow> bool" where
  "useRealAPI env = (env = Some ''true'')"

definition setLoading :: "bool \<Rightarrow> ui \<Rightarrow> ui" where
  "setLoading b s = s\<lparr>loading := b\<rparr>"

definition setAlert :: "string \<Rightarrow> alert_type \<Rightarrow> ui \<Rightarrow> ui" where
  "setAlert m t s = s\<lparr>alert := Some \<lparr>message = m, type = t\<rparr>\<rparr>"

subsection \<open>Second variant (App.jsx, lines 81 to 150)\<close>

text \<open>The simulated latency: \<^verbatim>\<open>await new Promise(resolve => setTimeout(resolve, 1500))\<close>.\<close>

definition await_delay :: "ui \<Rightarrow> segment" where
  "await_delay s = (s, [Delay 1500], Suspended AwaitDelay)"

definition analyzeVideo_body ::
  "string option \<Rightarrow> string option \<Rightarrow> real \<Rightarrow> real \<Rightarrow> real option \<Rightarrow> ui \<Rightarrow> segment" where
  "analyzeVideo_body env file start end' sens s =
     (let s1 = setLoading True s in
      if useRealAPI env then (s1, [CallApi file start end' sens], Suspended AwaitApi)
      else await_delay s1)"

definition on_api_resolved :: "analysis_result option \<Rightarrow> ui \<Rightarrow> segment" where
  "on_api_resolved apiResult s =
     (setAlert ''Analyse erfolgreich mit Backend abgeschlossen'' Success
        (s\<lparr>results := apiResult\<rparr>),
      [], Settled (Returned apiResult))"

definition fallback_prefix :: string where
  "fallback_prefix = ''Backend nicht verf'' @ [CHR 0xFC] @ ''gbar, verwende Demo-Daten: ''"

definition on_api_rejected :: "thrown \<Rightarrow> ui \<Rightarrow> segment" where
  "on_api_rejected apiError s =
     (case message_of apiError of
        Inl e \<Rightarrow> (s, [], Settled (Thrown e))
      | Inr m \<Rightarrow> await_delay (setAlert (fallback_prefix @ m) Warning s))"

definition on_delay_elapsed :: "random_source \<Rightarrow> ui \<Rightarrow> segment" where
  "on_delay_elapsed rnd s =
     (let d = dummyResult rnd in
      (setAlert ''Demo-Analyse erfolgreich abgeschlossen'' Success (s\<lparr>results := Some d\<rparr>),
       [], Settled (Returned (Some d))))"

text \<open>The outer handler sets the error alert and throws the error again.\<close>

definition outer_catch :: "thrown \<Rightarrow> ui \<Rightarrow> ui \<times> settle" where
  "outer_catch e s =
     (case message_of e of
        Inl e' \<Rightarrow> (s, Thrown e')
      | Inr m \<Rightarrow> (setAlert (''Fehler: '' @ m) Error s, Thrown e))"

subsection \<open>First variant (App.jsx, lines 28 to 68)\<close>

definition analyzeVideo1_body :: "ui \<Rightarrow> segment" where
  "analyzeVideo1_body s = await_delay (setLoading True s)"

definition on_delay_elapsed1 :: "random_source \<Rightarrow> ui \<Rightarrow> segment" where
  "on_delay_elapsed1 rnd s =
     (let d = dummyResult1 rnd in
      (setAlert ''Analyse erfolgreich abgeschlossen'' Success (s\<lparr>results := Some d\<rparr>),
       [], Settled (Returned (Some d))))"

text \<open>The handler of the first variant does not throw again: the call returns \<^verbatim>\<open>undefined\<close>.\<close>

definition catch1 :: "thrown \<Rightarrow> ui \<Rightarrow> ui \<times> settle" where
  "catch1 e s =
     (case message_of e of
        Inl e' \<Rightarrow> (s, Thrown e')
      | Inr m \<Rightarrow> (setAlert (''Fehler: '' @ m) Error s, Returned None))"

subsection \<open>Both variants, segment by segment\<close>

text \<open>
  \<open>analyzeVideo\<close> is the call up to its first \<^verbatim>\<open>await\<close>. \<open>analyzeVideo_resume\<close> is the
  segment that runs when the awaited promise settles: the backend resolved or rejected,
  or the timer fired (and the generator then drew from \<open>rnd\<close>). It is \<open>None\<close> where the
  wake-up does not belong to the \<^verbatim>\<open>await\<close> the call stands at.
\<close>

datatype wake =
  ApiResolved "analysis_result option"
  | ApiRejected thrown
  | DelayElapsed random_source

definition analyzeVideo ::
  "hook_variant \<Rightarrow> string option \<Rightarrow> string option \<Rightarrow> real \<Rightarrow> real \<Rightarrow> real option \<Rightarrow> ui
     \<Rightarrow> segment" where
  "analyzeVideo v env file start end' sens s =
     (case v of
        DemoOnly \<Rightarrow> try_catch_finally (analyzeVideo1_body s) catch1 (setLoading False)
      | RealWithFallback \<Rightarrow>
          try_catch_finally (analyzeVideo_body env file start end' sens s) outer_catch
            (setLoading False))"

fun analyzeVideo_resume :: "hook_variant \<Rightarrow> phase \<Rightarrow> wake \<Rightarrow> ui \<Rightarrow> segment option" where
  "analyzeVideo_resume RealWithFallback AwaitApi (ApiResolved r) s =
     Some (try_catch_finally (on_api_resolved r s) outer_catch (setLoading False))"
| "analyzeVideo_resume RealWithFallback AwaitApi (ApiRejected e) s =
     Some (try_catch_finally (on_api_rejected e s) outer_catch (setLoading False))"
| "analyzeVideo_resume RealWithFallback AwaitDelay (DelayElapsed rnd) s =
     Some (try_catch_finally (on_delay_elapsed rnd s) outer_catch (setLoading False))"
| "analyzeVideo_resume DemoOnly AwaitDelay (DelayElapsed rnd) s =
     Some (try_catch_finally (on_delay_elapsed1 rnd s) catch1 (setLoading False))"
| "analyzeVideo_resume _ _ _ _ = None"

section \<open>The upload view\<close>

text \<open>
  The handlers of \<^verbatim>\<open>UploadSection\<close>. The two range inputs call
  \<^verbatim>\<open>setStartTime(parseFloat(e.target.value))\<close> and the same for the end; the number
  they pass is the argument here. The handlers compare nothing: \<^verbatim>\<open>min="0"\<close>,
  \<^verbatim>\<open>max={duration}\<close> and \<^verbatim>\<open>step="0.1"\<close> belong to the input element.

  \<open>range_value hi t\<close> is the value such an element holds when \<open>t\<close> is asked of it, by
  the value sanitization of the HTML standard for \<^verbatim>\<open>type="range"\<close>: a value below the
  minimum becomes the minimum, one above the maximum the maximum, and a value off the
  steps the nearest multiple of the step between the two (the upper one of two equally
  near).
\<close>

definition range_value :: "real \<Rightarrow> real \<Rightarrow> real" where
  "range_value hi t =
     (let c = max 0 (min hi t)
      in of_int (min \<lfloor>c * 10 + 1 / 2\<rfloor> \<lfloor>hi * 10\<rfloor>) / 10)"

definition handleFileSelect :: "string option \<Rightarrow> ui \<Rightarrow> ui" where
  "handleFileSelect file s =
     (case file of
        None \<Rightarrow> s
      | Some f \<Rightarrow>
          s\<lparr>videoFile := Some f, startTime := 0, endTime := 0, currentTime := 0, alert := None\<rparr>)"

definition onLoadedMetadata :: "real \<Rightarrow> ui \<Rightarrow> ui" where
  "onLoadedMetadata dur s = s\<lparr>duration := dur, endTime := dur\<rparr>"

definition setStartTime :: "real \<Rightarrow> ui \<Rightarrow> ui" where
  "setStartTime t s = s\<lparr>startTime := t\<rparr>"

definition setEndTime :: "real \<Rightarrow> ui \<Rightarrow> ui" where
  "setEndTime t s = s\<lparr>endTime := t\<rparr>"

text \<open>
  \<^verbatim>\<open>handleAnalyze\<close> after its \<^verbatim>\<open>await analyzeVideo(...)\<close>: a truthy result goes to the
  page and the view switches to the results; a thrown error shows the error alert.
\<close>

definition handleAnalyze_resume :: "settle \<Rightarrow> ui \<Rightarrow> ui" where
  "handleAnalyze_resume c s =
     (case c of
        Returned None \<Rightarrow> s
      | Returned (Some d) \<Rightarrow> s\<lparr>appResults := Some d, activeSection := ''results''\<rparr>
      | Thrown e \<Rightarrow> setAlert ''Analyse fehlgeschlagen.'' Error s)"

text \<open>
  The \<^verbatim>\<open>await\<close> itself: a suspended \<^verbatim>\<open>analyzeVideo\<close> suspends \<^verbatim>\<open>handleAnalyze\<close>
  too (one more entry of \<open>inflight\<close>); a settled one lets it go on.
\<close>

definition await_analyzeVideo :: "segment \<Rightarrow> ui \<times> effect list" where
  "await_analyzeVideo r =
     (case r of
        (s, eff, Suspended ph) \<Rightarrow> (s\<lparr>inflight := inflight s @ [ph]\<rparr>, eff)
      | (s, eff, Settled c) \<Rightarrow> (handleAnalyze_resume c s, eff))"

definition no_file_message :: string where
  "no_file_message = ''Bitte w'' @ [CHR 0xE4] @ ''hlen Sie zuerst eine Videodatei aus.''"

text \<open>
  \<^verbatim>\<open>handleAnalyze\<close> (UploadSection.jsx, lines 58 to 78). It calls
  \<^verbatim>\<open>analyzeVideo(videoFile, startTime, endTime)\<close>: the sensitivity is left out.
\<close>

definition handleAnalyze :: "hook_variant \<Rightarrow> string option \<Rightarrow> ui \<Rightarrow> ui \<times> effect list" where
  "handleAnalyze v env s =
     (if videoFile s = None then (setAlert no_file_message Warning s, [])
      else if startTime s \<ge> endTime s then
        (setAlert ''Startzeit muss kleiner als Endzeit sein.'' Warning s, [])
      else await_analyzeVideo (analyzeVideo v env (videoFile s) (startTime s) (endTime s) None s))"

subsection \<open>Events\<close>

text \<open>
  What can happen to the mounted view. The section renders its controls and its video
  element only while it is the active one; the sliders only once a duration is known,
  and a value \<open>t\<close> asked of a slider reaches the handler as the slider's value for it;
  the analyze button carries
  \<^verbatim>\<open>disabled={!videoFile || loading}\<close>, and a disabled button fires no click. An event
  that cannot happen in a state leaves it as it is. \<open>Wake k w\<close> settles the promise the
  \<open>k\<close>-th suspended call waits for.
\<close>

datatype event =
  Navigate string
  | SelectFile "string option"
  | LoadedMetadata real
  | ChangeStart real
  | ChangeEnd real
  | ClickAnalyze
  | Wake nat wake

definition active :: "ui \<Rightarrow> bool" where
  "active s = (activeSection s = ''upload'')"

definition analyze_disabled :: "ui \<Rightarrow> bool" where
  "analyze_disabled s = (videoFile s = None \<or> loading s)"

definition sliders_rendered :: "ui \<Rightarrow> bool" where
  "sliders_rendered s = (active s \<and> duration s > 0)"

definition wake_call :: "hook_variant \<Rightarrow> nat \<Rightarrow> wake \<Rightarrow> ui \<Rightarrow> ui \<times> effect list" where
  "wake_call v k w s =
     (if k < length (inflight s) then
        (case analyzeVideo_resume v (inflight s ! k) w
                (s\<lparr>inflight := take k (inflight s) @ drop (Suc k) (inflight s)\<rparr>) of
           None \<Rightarrow> (s, [])
         | Some r \<Rightarrow> await_analyzeVideo r)
      else (s, []))"

fun step :: "hook_variant \<Rightarrow> string option \<Rightarrow> event \<Rightarrow> ui \<Rightarrow> ui \<times> effect list" where
  "step v env (Navigate sec) s = (s\<lparr>activeSection := sec\<rparr>, [])"
| "step v env (SelectFile file) s = (if active s then (handleFileSelect file s, []) else (s, []))"
| "step v env (LoadedMetadata dur) s =
     (if active s then (onLoadedMetadata dur s, []) else (s, []))"
| "step v env (ChangeStart t) s =
     (if sliders_rendered s then (setStartTime (range_value (duration s) t) s, []) else (s, []))"
| "step v env (ChangeEnd t) s =
     (if sliders_rendered s then (setEndTime (range_value (duration s) t) s, []) else (s, []))"
| "step v env ClickAnalyze s =
     (if active s \<and> \<not> analyze_disabled s then handleAnalyze v env s else (s, []))"
| "step v env (Wake k w) s = wake_call v k w s"

text \<open>The state after a sequence of events, and the effects it asked for, oldest first.\<close>

fun run :: "hook_variant \<Rightarrow> string option \<Rightarrow> event list \<Rightarrow> ui \<Rightarrow> ui" where
  "run v env [] s = s"
| "run v env (e # es) s = run v env es (fst (step v env e s))"

fun run_effects :: "hook_variant \<Rightarrow> string option \<Rightarrow> event list \<Rightarrow> ui \<Rightarrow> effect list" where
  "run_effects v env [] s = []"
| "run_effects v env (e # es) s =
     snd (step v env e s) @ run_effects v env es (fst (step v env e s))"

section \<open>The settings view and its debounce\<close>

text \<open>
  \<^verbatim>\<open>Settings\<close> (with the props \<^verbatim>\<open>sensitivity\<close> and \<^verbatim>\<open>setSensitivity\<close> that
  MainContent.jsx passes) keeps the slider's value in \<open>tempSensitivity\<close> and the id of its
  timer in the ref \<open>debounceTimeout\<close>. The browser's side is explicit: \<open>clock\<close> in
  milliseconds, the pending \<open>timers\<close> in the order they were set (all with the same delay,
  so that is also the order in which they are due), and the next timer id; browsers
  hand out ids greater than zero. \<open>commits\<close> is not a cell of the program but the log
  of the calls of \<^verbatim>\<open>setSensitivity\<close>: when, and with what value.
\<close>

record timer =
  timer_id :: nat
  due :: nat
  pending :: real

record settings =
  tempSensitivity :: real
  sensitivity :: real
  debounceTimeout :: "nat option"
  timers :: "timer list"
  clock :: nat
  nextTimerId :: nat
  commits :: "(nat \<times> real) list"

definition clearTimeout :: "nat \<Rightarrow> settings \<Rightarrow> settings" where
  "clearTimeout i st = st\<lparr>timers := filter (\<lambda>t. timer_id t \<noteq> i) (timers st)\<rparr>"

definition setTimeout :: "real \<Rightarrow> nat \<Rightarrow> settings \<Rightarrow> nat \<times> settings" where
  "setTimeout x delay st =
     (nextTimerId st,
      st\<lparr>timers := timers st @ [\<lparr>timer_id = nextTimerId st, due = clock st + delay, pending = x\<rparr>],
         nextTimerId := nextTimerId st + 1\<rparr>)"

text \<open>
  \<^verbatim>\<open>handleChange\<close> (part_001, lines 43 to 54), with the parsed number as argument.
  \<^verbatim>\<open>if (debounceTimeout.current)\<close> is false for \<^verbatim>\<open>null\<close> and for the number 0.
\<close>

definition handleChange :: "real \<Rightarrow> settings \<Rightarrow> settings" where
  "handleChange x st =
     (let st1 = st\<lparr>tempSensitivity := x\<rparr>;
          st2 = (case debounceTimeout st1 of
                   None \<Rightarrow> st1
                 | Some i \<Rightarrow> if i \<noteq> 0 then clearTimeout i st1 else st1)
      in case setTimeout x 300 st2 of (i, st3) \<Rightarrow> st3\<lparr>debounceTimeout := Some i\<rparr>)"

text \<open>
  A timer that fires runs \<^verbatim>\<open>setSensitivity(value)\<close>; when that changes the prop, the
  effect of \<^verbatim>\<open>Settings\<close> copies it into \<open>tempSensitivity\<close>.
\<close>

definition fire :: "timer \<Rightarrow> settings \<Rightarrow> settings" where
  "fire t st =
     st\<lparr>sensitivity := pending t,
        tempSensitivity := (if pending t \<noteq> sensitivity st then pending t else tempSensitivity st),
        commits := commits st @ [(due t, pending t)]\<rparr>"

text \<open>Time passes until \<open>T\<close>: the timers due by then fire, oldest first.\<close>

definition advance :: "nat \<Rightarrow> settings \<Rightarrow> settings" where
  "advance T st =
     (fold fire (filter (\<lambda>t. due t \<le> T) (timers st))
        (st\<lparr>timers := filter (\<lambda>t. \<not> due t \<le> T) (timers st)\<rparr>))\<lparr>clock := T\<rparr>"

text \<open>An input is the time of a change event and the value of the slider then.\<close>

definition input :: "nat \<times> real \<Rightarrow> settings \<Rightarrow> settings" where
  "input e st = handleChange (snd e) (advance (fst e) st)"

definition inputs :: "(nat \<times> real) list \<Rightarrow> settings \<Rightarrow> settings" where
  "inputs es st = fold input es st"

text \<open>
  A burst that follows an input at \<open>t\<close>: every change comes less than 300 ms after the
  one before it, and not before it.
\<close>

fun rapid :: "nat \<Rightarrow> (nat \<times> real) list \<Rightarrow> bool" where
  "rapid t [] = True"
| "rapid t (e # es) = (t \<le> fst e \<and> fst e < t + 300 \<and> rapid (fst e) es)"

section \<open>The export\<close>














section \<open>Sample data\<close>

text \<open>A small document, a state with a selected file of 60 seconds, and a fresh settings view.\<close>

definition sample_doc :: "int \<Rightarrow> analysis_result" where
  "sample_doc k =
     \<lparr> totalFrames = 7, batDetected = True, detectionCount = k,
       startPoint = \<lparr> pt_x = 1, pt_y = 2 \<rparr>, endPoint = \<lparr> pt_x = 3, pt_y = 4 \<rparr>,
       analysisTime = ''00:01'', fps = Some 25, videoDuration = Some 1,
       positions = [], movementsPerFrame = [] \<rparr>"

definition ready_ui :: ui where
  "ready_ui =
     run RealWithFallback (Some ''true'')
       [Navigate ''upload'', SelectFile (Some ''bats.mp4''), LoadedMetadata 60] init_ui"

definition fresh_settings :: settings where
  "fresh_settings =
     \<lparr> tempSensitivity = 1 / 2, sensitivity = 1 / 2, debounceTimeout = None, timers = [],
       clock = 0, nextTimerId = 1, commits = [] \<rparr>"

definition dispatch_events :: "event list" where
  "dispatch_events =
     [Navigate ''upload'', SelectFile (Some ''bats.mp4''), LoadedMetadata 60, ClickAnalyze]"

text \<open>
  The backend fails and the demo data takes over, starting from a view that already
  holds a result.
\<close>

definition fallback_run :: ui where
  "fallback_run =
     run RealWithFallback (Some ''true'')
       [ClickAnalyze, Wake 0 (ApiRejected (JsError ''Failed to fetch'')),
        Wake 0 (DelayElapsed (\<lambda>k. 0))]
       (ready_ui\<lparr>results := Some (sample_doc 1)\<rparr>)"

text \<open>
  Two overlapping requests, which only a caller that goes past the disabled button can
  produce: \<^verbatim>\<open>handleAnalyze\<close> runs twice, the backend answers the second call with
  \<open>second\<close>, then the first call with \<open>first\<close>.
\<close>

definition overlap_run ::
  "hook_variant \<Rightarrow> string option \<Rightarrow> analysis_result option \<Rightarrow> analysis_result option
     \<Rightarrow> ui \<Rightarrow> ui" where
  "overlap_run v env first second s =
     fst (wake_call v 0 (ApiResolved first)
       (fst (wake_call v 1 (ApiResolved second)
         (fst (handleAnalyze v env (fst (handleAnalyze v env s)))))))"

text \<open>Ten changes of the slider, 10 ms apart, and the positions of the one-row example.\<close>

definition burst10 :: "(nat \<times> real) list" where
  "burst10 =
     [(0, 1 / 10), (10, 3 / 20), (20, 1 / 5), (30, 1 / 4), (40, 3 / 10), (50, 7 / 20),
      (60, 2 / 5), (70, 9 / 20), (80, 1 / 2), (90, 11 / 20)]"



text \<open>The view once the analyze button was clicked and the backend call is pending.\<close>

definition dispatched_ui :: ui where
  "dispatched_ui = run RealWithFallback (Some ''true'') dispatch_events init_ui"

section \<open>Predicates of the statements\<close>

text \<open>At most one request is in flight, and the view is loading exactly while one is.\<close>

definition one_in_flight :: "ui \<Rightarrow> bool" where
  "one_in_flight s = (length (inflight s) \<le> 1 \<and> (loading s = (inflight s \<noteq> [])))"

fun is_remote_call :: "effect \<Rightarrow> bool" where
  "is_remote_call (CallApi file a b u) = True"
| "is_remote_call (Delay n) = False"

text \<open>
  After an input at \<open>t\<close> with value \<open>x\<close>: one timer is pending, due at \<open>t + 300\<close> with
  that value, the ref holds its id, and nothing was committed since \<open>st0\<close>.
\<close>

definition armed :: "nat \<Rightarrow> real \<Rightarrow> settings \<Rightarrow> settings \<Rightarrow> bool" where
  "armed t x st0 st =
     (\<exists>i. i \<noteq> 0 \<and> timers st = [\<lparr>timer_id = i, due = t + 300, pending = x\<rparr>]
        \<and> debounceTimeout st = Some i \<and> 0 < nextTimerId st \<and> clock st = t
        \<and> tempSensitivity st = x \<and> commits st = commits st0
        \<and> sensitivity st = sensitivity st0)"

section \<open>Evaluation lemmas\<close>

lemmas segment_defs =
  analyzeVideo_def analyzeVideo_body_def analyzeVideo1_body_def await_delay_def
  try_catch_finally_def setLoading_def setAlert_def on_api_resolved_def on_api_rejected_def
  on_delay_elapsed_def on_delay_elapsed1_def outer_catch_def catch1_def message_of_def

lemmas view_defs =
  handleAnalyze_def await_analyzeVideo_def wake_call_def handleAnalyze_resume_def
  active_def analyze_disabled_def sliders_rendered_def handleFileSelect_def
  onLoadedMetadata_def setStartTime_def setEndTime_def

lemma ready_ui_eq:
  "ready_ui = init_ui\<lparr>activeSection := ''upload'', videoFile := Some ''bats.mp4'',
      duration := 60, endTime := 60\<rparr>"
  by (simp add: ready_ui_def init_ui_def view_defs)

section \<open>Validation before dispatch\<close>

text \<open>
  Claim C3. In every state without a selected file, or with a start that is not below
  the end, \<^verbatim>\<open>handleAnalyze\<close> only sets a warning alert: every other cell keeps its
  value, and no effect is asked for, so neither the backend call nor the delay of the
  demo path starts. (The analyze button is disabled without a file, so a click reaches
  the first check only through a direct call of the handler.)
\<close>

theorem handleAnalyze_refuses_invalid:
  assumes "videoFile s = None \<or> startTime s \<ge> endTime s"
  shows "\<exists>m. handleAnalyze v env s = (s\<lparr>alert := Some \<lparr>message = m, type = Warning\<rparr>\<rparr>, [])"
  using assms by (auto simp: handleAnalyze_def setAlert_def)

text \<open>
  The two refusals at work: the initial view has no file; the view with a file of 60
  seconds and the start moved to 60 has start = end.
\<close>

theorem handleAnalyze_refuses_invalid_witness:
  "(\<exists>m. handleAnalyze RealWithFallback (Some ''true'') init_ui
          = (init_ui\<lparr>alert := Some \<lparr>message = m, type = Warning\<rparr>\<rparr>, []))
   \<and> (\<exists>m. handleAnalyze RealWithFallback (Some ''true'') (setStartTime 60 ready_ui)
          = ((setStartTime 60 ready_ui)\<lparr>alert := Some \<lparr>message = m, type = Warning\<rparr>\<rparr>, []))"
proof
  show "\<exists>m. handleAnalyze RealWithFallback (Some ''true'') init_ui
          = (init_ui\<lparr>alert := Some \<lparr>message = m, type = Warning\<rparr>\<rparr>, [])"
    by (rule handleAnalyze_refuses_invalid) (simp add: init_ui_def)
  show "\<exists>m. handleAnalyze RealWithFallback (Some ''true'') (setStartTime 60 ready_ui)
          = ((setStartTime 60 ready_ui)\<lparr>alert := Some \<lparr>message = m, type = Warning\<rparr>\<rparr>, [])"
    by (rule handleAnalyze_refuses_invalid) (simp add: ready_ui_eq init_ui_def setStartTime_def)
qed

section \<open>The segment sliders\<close>

text \<open>The value a slider holds lies between its ends, within a step of what was asked.\<close>

lemma range_value_bounds:
  assumes "0 < hi"
  shows "0 \<le> range_value hi t \<and> range_value hi t \<le> hi"
proof -
  let ?c = "max 0 (min hi t)"
  have c: "0 \<le> ?c" by simp
  have "0 \<le> ?c * 10 + 1 / 2" using c by linarith
  then have k: "0 \<le> \<lfloor>?c * 10 + 1 / 2\<rfloor>" by simp
  have K: "0 \<le> \<lfloor>hi * 10\<rfloor>" using assms by simp
  have "(0::int) \<le> min \<lfloor>?c * 10 + 1 / 2\<rfloor> \<lfloor>hi * 10\<rfloor>" using k K by simp
  then have lo: "(0::real) \<le> of_int (min \<lfloor>?c * 10 + 1 / 2\<rfloor> \<lfloor>hi * 10\<rfloor>)" by simp
  have "(of_int (min \<lfloor>?c * 10 + 1 / 2\<rfloor> \<lfloor>hi * 10\<rfloor>) :: real) \<le> of_int \<lfloor>hi * 10\<rfloor>"
    by simp
  also have "\<dots> \<le> hi * 10" by (rule of_int_floor_le)
  finally have up: "(of_int (min \<lfloor>?c * 10 + 1 / 2\<rfloor> \<lfloor>hi * 10\<rfloor>) :: real) \<le> hi * 10" .
  show ?thesis using lo up by (simp add: range_value_def Let_def)
qed

lemma range_value_near:
  assumes "0 < hi"
  shows "\<bar>range_value hi t - max 0 (min hi t)\<bar> < 1 / 10"
proof -
  define c where "c = max 0 (min hi t)"
  define k where "k = \<lfloor>c * 10 + 1 / 2\<rfloor>"
  define K where "K = \<lfloor>hi * 10\<rfloor>"
  have c: "0 \<le> c" "c \<le> hi" using assms by (simp_all add: c_def)
  have k1: "of_int k \<le> c * 10 + 1 / 2" and k2: "c * 10 + 1 / 2 < of_int k + 1"
    unfolding k_def by linarith+
  have K1: "of_int K \<le> hi * 10" and K2: "hi * 10 < of_int K + 1"
    unfolding K_def by linarith+
  have v: "range_value hi t = of_int (min k K) / 10"
    by (simp add: range_value_def Let_def c_def k_def K_def)
  have goal: "\<bar>of_int (min k K) / 10 - c\<bar> < 1 / 10"
  proof (cases "k \<le> K")
    case True
    then have m: "min k K = k" by simp
    have "of_int k / 10 - c < 1 / 10" and "- (of_int k / 10 - c) < 1 / 10"
      using k1 k2 by linarith+
    then show ?thesis unfolding m abs_less_iff by blast
  next
    case False
    then have m: "min k K = K" by simp
    from False have "K + 1 \<le> k" by simp
    then have "(of_int K :: real) + 1 \<le> of_int k"
      by (metis of_int_1 of_int_add of_int_le_iff)
    then have "of_int K / 10 - c < 1 / 10" and "- (of_int K / 10 - c) < 1 / 10"
      using k1 K1 K2 c by linarith+
    then show ?thesis unfolding m abs_less_iff by blast
  qed
  show ?thesis unfolding v c_def [symmetric] by (rule goal)
qed

lemma range_value_low:
  assumes "0 < hi" and "t \<le> 0"
  shows "range_value hi t = 0"
proof -
  have "max 0 (min hi t) = 0" using assms by simp
  moreover have "0 \<le> \<lfloor>hi * 10\<rfloor>" using assms by simp
  ultimately show ?thesis by (simp add: range_value_def Let_def)
qed

lemma range_value_high:
  assumes "0 < hi" and "hi \<le> t"
  shows "range_value hi t = of_int \<lfloor>hi * 10\<rfloor> / 10"
proof -
  have c: "max 0 (min hi t) = hi" using assms by simp
  have "\<lfloor>hi * 10\<rfloor> \<le> \<lfloor>hi * 10 + 1 / 2\<rfloor>" by (rule floor_mono) simp
  then show ?thesis by (simp add: range_value_def Let_def c)
qed

lemma range_value_on_step:
  assumes "0 \<le> t" and "t \<le> hi" and "t * 10 = of_int n"
  shows "range_value hi t = t"
proof -
  have c: "max 0 (min hi t) = t" using assms by simp
  have k: "\<lfloor>t * 10 + 1 / 2\<rfloor> = n" unfolding assms(3) by linarith
  have "of_int n \<le> hi * 10" using assms by linarith
  then have "n \<le> \<lfloor>hi * 10\<rfloor>" by (simp add: le_floor_iff)
  then have "min n \<lfloor>hi * 10\<rfloor> = n" by simp
  then show ?thesis using assms(3) by (simp add: range_value_def Let_def c k)
qed

text \<open>
  Claim C7 as stated fails in its ordering: with a file of 60 seconds and the segment
  (0, 60), asking the start slider for 70 stores 60, so start = end; asking it for 60, or
  the end slider for 0, does the same.
\<close>

theorem start_slider_reaches_end_counterexample:
  "sliders_rendered ready_ui \<and> duration ready_ui = 60
   \<and> startTime ready_ui = 0 \<and> endTime ready_ui = 60
   \<and> startTime (fst (step RealWithFallback (Some ''true'') (ChangeStart 70) ready_ui)) = 60
   \<and> endTime (fst (step RealWithFallback (Some ''true'') (ChangeStart 70) ready_ui)) = 60
   \<and> startTime (fst (step RealWithFallback (Some ''true'') (ChangeStart 60) ready_ui)) = 60
   \<and> startTime (fst (step RealWithFallback (Some ''true'') (ChangeEnd 0) ready_ui))
       \<ge> endTime (fst (step RealWithFallback (Some ''true'') (ChangeEnd 0) ready_ui))"
  by (simp add: ready_ui_eq init_ui_def view_defs range_value_def)

text \<open>
  Claim C7, amended. While the sliders are there, a change of the start slider to any
  \<open>t\<close> stores a start between 0 and the duration: \<open>t\<close> clamped to that interval, up to
  the slider's step of 0.1 (0 for a \<open>t\<close> below 0, the last step of the slider for a
  \<open>t\<close> beyond the duration, \<open>t\<close> itself when it lies on a step inside). The end and the
  duration keep their values. The same holds for the end slider, with start and end
  exchanged. The clamping is done by the range input, whose value the handler stores;
  nothing keeps the start below the end.
\<close>

theorem sliders_clamp:
  assumes "sliders_rendered s"
  shows "0 \<le> startTime (fst (step v env (ChangeStart t) s))
    \<and> startTime (fst (step v env (ChangeStart t) s)) \<le> duration s
    \<and> \<bar>startTime (fst (step v env (ChangeStart t) s)) - max 0 (min (duration s) t)\<bar> < 1 / 10
    \<and> (t \<le> 0 \<longrightarrow> startTime (fst (step v env (ChangeStart t) s)) = 0)
    \<and> (duration s \<le> t \<longrightarrow>
          startTime (fst (step v env (ChangeStart t) s)) = of_int \<lfloor>duration s * 10\<rfloor> / 10)
    \<and> (0 \<le> t \<and> t \<le> duration s \<and> t * 10 = of_int n \<longrightarrow>
          startTime (fst (step v env (ChangeStart t) s)) = t)
    \<and> endTime (fst (step v env (ChangeStart t) s)) = endTime s
    \<and> duration (fst (step v env (ChangeStart t) s)) = duration s
    \<and> 0 \<le> endTime (fst (step v env (ChangeEnd t) s))
    \<and> endTime (fst (step v env (ChangeEnd t) s)) \<le> duration s
    \<and> \<bar>endTime (fst (step v env (ChangeEnd t) s)) - max 0 (min (duration s) t)\<bar> < 1 / 10
    \<and> (t \<le> 0 \<longrightarrow> endTime (fst (step v env (ChangeEnd t) s)) = 0)
    \<and> (duration s \<le> t \<longrightarrow>
          endTime (fst (step v env (ChangeEnd t) s)) = of_int \<lfloor>duration s * 10\<rfloor> / 10)
    \<and> (0 \<le> t \<and> t \<le> duration s \<and> t * 10 = of_int n \<longrightarrow>
          endTime (fst (step v env (ChangeEnd t) s)) = t)
    \<and> startTime (fst (step v env (ChangeEnd t) s)) = startTime s
    \<and> duration (fst (step v env (ChangeEnd t) s)) = duration s"
proof -
  have d: "0 < duration s" using assms by (simp add: sliders_rendered_def)
  have a: "startTime (fst (step v env (ChangeStart t) s)) = range_value (duration s) t"
    and b: "endTime (fst (step v env (ChangeEnd t) s)) = range_value (duration s) t"
    and c: "endTime (fst (step v env (ChangeStart t) s)) = endTime s"
      "duration (fst (step v env (ChangeStart t) s)) = duration s"
      "startTime (fst (step v env (ChangeEnd t) s)) = startTime s"
      "duration (fst (step v env (ChangeEnd t) s)) = duration s"
    using assms by (simp_all add: setStartTime_def setEndTime_def)
  show ?thesis
    unfolding a b c
    using range_value_bounds [OF d, of t] range_value_near [OF d, of t]
      range_value_low [OF d, of t] range_value_high [OF d, of t]
      range_value_on_step [of t "duration s" n]
    by blast
qed

text \<open>With 60 seconds: 70 becomes 60, 30 stays, -5 becomes 0, 33.325 lands within a step.\<close>

theorem sliders_clamp_witness:
  "startTime (fst (step RealWithFallback (Some ''true'') (ChangeStart 70) ready_ui)) = 60
   \<and> endTime (fst (step RealWithFallback (Some ''true'') (ChangeEnd 30) ready_ui)) = 30
   \<and> endTime (fst (step RealWithFallback (Some ''true'') (ChangeEnd (- 5)) ready_ui)) = 0
   \<and> \<bar>startTime (fst (step RealWithFallback (Some ''true'') (ChangeStart (1333 / 40)) ready_ui))
        - 1333 / 40\<bar> < 1 / 10"
proof -
  have r: "sliders_rendered ready_ui" and d: "duration ready_ui = 60"
    by (simp_all add: ready_ui_eq init_ui_def view_defs)
  note w = sliders_clamp [OF r, of RealWithFallback "Some ''true''", unfolded d]
  have 1: "startTime (fst (step RealWithFallback (Some ''true'') (ChangeStart 70) ready_ui)) = 60"
    using w [of 70 0] by simp
  have 2: "endTime (fst (step RealWithFallback (Some ''true'') (ChangeEnd 30) ready_ui)) = 30"
    using w [of 30 300] by simp
  have 3: "endTime (fst (step RealWithFallback (Some ''true'') (ChangeEnd (- 5)) ready_ui)) = 0"
    using w [of "- 5" 0] by simp
  have 4: "\<bar>startTime (fst (step RealWithFallback (Some ''true'') (ChangeStart (1333 / 40)) ready_ui))
        - 1333 / 40\<bar> < 1 / 10"
    using w [of "1333 / 40" 0] by simp
  from 1 2 3 4 show ?thesis by simp
qed

section \<open>One request in flight\<close>

text \<open>What the segments of \<^verbatim>\<open>analyzeVideo\<close> and the rest of \<^verbatim>\<open>handleAnalyze\<close> leave alone.\<close>

lemma analyzeVideo_frame:
  assumes "analyzeVideo v env file a b u s = (s', eff, pr)"
  shows "inflight s' = inflight s \<and> loading s' \<and> (\<exists>ph. pr = Suspended ph)"
  using assms by (cases v) (auto simp: segment_defs Let_def split: if_splits)

lemma analyzeVideo_resume_frame:
  assumes "analyzeVideo_resume v ph w s = Some (s', eff, pr)"
  shows "inflight s' = inflight s
         \<and> (case pr of Suspended ph' \<Rightarrow> loading s' = loading s | Settled c \<Rightarrow> \<not> loading s')"
  using assms
  by (cases "(v, ph, w, s)" rule: analyzeVideo_resume.cases)
     (auto simp: segment_defs Let_def split: thrown.splits)

lemma handleAnalyze_resume_frame:
  "inflight (handleAnalyze_resume c s) = inflight s
   \<and> loading (handleAnalyze_resume c s) = loading s"
  by (auto simp: handleAnalyze_resume_def setAlert_def split: settle.splits option.splits)

text \<open>Every event keeps the invariant: the button is the only way into \<^verbatim>\<open>handleAnalyze\<close>.\<close>

lemma step_one_in_flight:
  assumes "one_in_flight s"
  shows "one_in_flight (fst (step v env e s))"
proof (cases e)
  case ClickAnalyze
  show ?thesis
  proof (cases "active s \<and> \<not> analyze_disabled s")
    case False
    with ClickAnalyze assms show ?thesis by auto
  next
    case True
    then have idle: "inflight s = []" "\<not> loading s"
      using assms by (auto simp: one_in_flight_def analyze_disabled_def)
    obtain s' eff pr where
      a: "analyzeVideo v env (videoFile s) (startTime s) (endTime s) None s = (s', eff, pr)"
      by (cases "analyzeVideo v env (videoFile s) (startTime s) (endTime s) None s") auto
    from analyzeVideo_frame [OF a] idle ClickAnalyze True a assms show ?thesis
      by (auto simp: handleAnalyze_def await_analyzeVideo_def setAlert_def one_in_flight_def)
  qed
next
  case (Wake k w)
  show ?thesis
  proof (cases "k < length (inflight s)")
    case False
    with Wake assms show ?thesis by (simp add: wake_call_def)
  next
    case True
    then have k: "k = 0" and one: "length (inflight s) = 1" and l: "loading s"
      using assms by (auto simp: one_in_flight_def)
    let ?s0 = "s\<lparr>inflight := take k (inflight s) @ drop (Suc k) (inflight s)\<rparr>"
    have empty: "inflight ?s0 = []" using k one by simp
    show ?thesis
    proof (cases "analyzeVideo_resume v (inflight s ! k) w ?s0")
      case None
      with Wake True assms show ?thesis by (simp add: wake_call_def)
    next
      case (Some r)
      obtain s' eff pr where r: "r = (s', eff, pr)" by (cases r) auto
      from analyzeVideo_resume_frame [OF Some [unfolded r]] empty l
      have "one_in_flight (fst (await_analyzeVideo (s', eff, pr)))"
        by (cases pr)
           (auto simp: await_analyzeVideo_def one_in_flight_def handleAnalyze_resume_frame)
      with Wake True Some r show ?thesis by (simp add: wake_call_def)
    qed
  qed
qed (use assms in \<open>auto simp: one_in_flight_def handleFileSelect_def onLoadedMetadata_def
      setStartTime_def setEndTime_def split: option.splits\<close>)

lemma run_one_in_flight:
  "one_in_flight s \<Longrightarrow> one_in_flight (run v env es s)"
  by (induction es arbitrary: s) (auto intro: step_one_in_flight)

lemma init_one_in_flight: "one_in_flight init_ui"
  by (simp add: one_in_flight_def init_ui_def)

lemma dispatched_ui_eq:
  "dispatched_ui = ready_ui\<lparr>loading := True, inflight := [AwaitApi]\<rparr>"
  by (simp add: dispatched_ui_def dispatch_events_def ready_ui_eq init_ui_def view_defs
      segment_defs useRealAPI_def)

text \<open>
  Claim C1 as stated fails: \<^verbatim>\<open>handleAnalyze\<close> and \<^verbatim>\<open>analyzeVideo\<close> hold no check for a
  request in flight. Called in the state where the backend call of the first click is
  pending, \<^verbatim>\<open>handleAnalyze\<close> is not rejected: it starts a second backend call and a
  second suspended call joins the first.
\<close>

theorem second_call_not_rejected_counterexample:
  "loading dispatched_ui \<and> inflight dispatched_ui = [AwaitApi]
   \<and> handleAnalyze RealWithFallback (Some ''true'') dispatched_ui
       = (dispatched_ui\<lparr>inflight := [AwaitApi, AwaitApi]\<rparr>,
          [CallApi (Some ''bats.mp4'') 0 60 None])
   \<and> analyzeVideo RealWithFallback (Some ''true'') (Some ''bats.mp4'') 0 60 None dispatched_ui
       = (dispatched_ui, [CallApi (Some ''bats.mp4'') 0 60 None], Suspended AwaitApi)"
  by (simp add: dispatched_ui_eq ready_ui_eq init_ui_def view_defs segment_defs useRealAPI_def)

text \<open>
  Claim C1, amended. The second dispatch is kept out by the analyze button, not by the
  functions behind it: the button carries \<^verbatim>\<open>disabled={!videoFile || loading}\<close>. In
  every state the view can reach from its start, by any sequence of events and with
  either variant of the hook: while a request is in flight, a click on the analyze
  button changes nothing and asks for no effect, so no second backend call starts; and
  exactly one request is in flight then.
\<close>

theorem second_dispatch_rejected:
  assumes "inflight (run v env es init_ui) \<noteq> []"
  shows "step v env ClickAnalyze (run v env es init_ui) = (run v env es init_ui, [])
         \<and> length (inflight (run v env es init_ui)) = 1"
proof -
  have "one_in_flight (run v env es init_ui)"
    by (rule run_one_in_flight [OF init_one_in_flight])
  with assms show ?thesis
    by (cases "inflight (run v env es init_ui)") (auto simp: one_in_flight_def analyze_disabled_def)
qed

text \<open>
  After a file of 60 seconds is chosen and the button clicked, the backend call is
  pending; the next click is the one the theorem rejects.
\<close>

theorem second_dispatch_rejected_witness:
  "inflight (run RealWithFallback (Some ''true'') dispatch_events init_ui) = [AwaitApi]
   \<and> run_effects RealWithFallback (Some ''true'') dispatch_events init_ui
       = [CallApi (Some ''bats.mp4'') 0 60 None]
   \<and> step RealWithFallback (Some ''true'') ClickAnalyze
        (run RealWithFallback (Some ''true'') dispatch_events init_ui)
       = (run RealWithFallback (Some ''true'') dispatch_events init_ui, [])"
proof -
  have i: "inflight (run RealWithFallback (Some ''true'') dispatch_events init_ui) = [AwaitApi]"
    by (simp add: dispatch_events_def init_ui_def view_defs segment_defs useRealAPI_def)
  have e: "run_effects RealWithFallback (Some ''true'') dispatch_events init_ui
       = [CallApi (Some ''bats.mp4'') 0 60 None]"
    by (simp add: dispatch_events_def init_ui_def view_defs segment_defs useRealAPI_def)
  have "inflight (run RealWithFallback (Some ''true'') dispatch_events init_ui) \<noteq> []"
    using i by simp
  from second_dispatch_rejected [OF this] i e show ?thesis by simp
qed

section \<open>Overlapping requests\<close>

text \<open>
  Claim C2 as stated fails: the code gives a request no id and drops no response. When
  \<^verbatim>\<open>handleAnalyze\<close> runs a second time while the first call waits, a second backend
  call starts, and the answer to the first request, arriving after the answer to the
  second, replaces the stored document in the hook and in the page.
\<close>

theorem stale_response_overwrites_counterexample:
  "snd (handleAnalyze RealWithFallback (Some ''true'')
          (fst (handleAnalyze RealWithFallback (Some ''true'') ready_ui)))
     = [CallApi (Some ''bats.mp4'') 0 60 None]
   \<and> inflight (fst (handleAnalyze RealWithFallback (Some ''true'')
          (fst (handleAnalyze RealWithFallback (Some ''true'') ready_ui)))) = [AwaitApi, AwaitApi]
   \<and> results (overlap_run RealWithFallback (Some ''true'')
        (Some (sample_doc 1)) (Some (sample_doc 2)) ready_ui) = Some (sample_doc 1)
   \<and> appResults (overlap_run RealWithFallback (Some ''true'')
        (Some (sample_doc 1)) (Some (sample_doc 2)) ready_ui) = Some (sample_doc 1)
   \<and> sample_doc 1 \<noteq> sample_doc 2"
  by (simp add: overlap_run_def ready_ui_eq init_ui_def view_defs segment_defs useRealAPI_def
      Let_def sample_doc_def)

text \<open>
  Claim C2, amended. Requests carry no id. Overlap is kept out by the disabled button
  (claim C1); should \<^verbatim>\<open>handleAnalyze\<close> still run twice before the first call settles,
  both calls reach the backend and every answer is stored when it arrives, so the
  document that stays is the one of the answer that arrives last, here the first
  request's.
\<close>

theorem last_response_wins:
  assumes "videoFile s \<noteq> None" and "startTime s < endTime s" and "inflight s = []"
  shows "snd (handleAnalyze RealWithFallback (Some ''true'')
               (fst (handleAnalyze RealWithFallback (Some ''true'') s)))
           = [CallApi (videoFile s) (startTime s) (endTime s) None]
    \<and> results (overlap_run RealWithFallback (Some ''true'') first second s) = first
    \<and> (first \<noteq> None \<longrightarrow>
          appResults (overlap_run RealWithFallback (Some ''true'') first second s) = first)
    \<and> inflight (overlap_run RealWithFallback (Some ''true'') first second s) = []"
  using assms
  by (cases first; cases second)
     (auto simp: overlap_run_def handleAnalyze_def await_analyzeVideo_def
        wake_call_def handleAnalyze_resume_def segment_defs useRealAPI_def Let_def)

theorem last_response_wins_witness:
  "results (overlap_run RealWithFallback (Some ''true'') (Some (sample_doc 1)) None ready_ui)
     = Some (sample_doc 1)
   \<and> inflight (overlap_run RealWithFallback (Some ''true'') (Some (sample_doc 1)) None ready_ui)
     = []"
proof -
  have "videoFile ready_ui \<noteq> None" "startTime ready_ui < endTime ready_ui"
    "inflight ready_ui = []"
    by (simp_all add: ready_ui_eq init_ui_def)
  from last_response_wins [OF this, of "Some (sample_doc 1)" None] show ?thesis by simp
qed

section \<open>Failure of the backend\<close>

text \<open>
  Claim C4 as stated fails: the code has no switch for the fallback, so no setting is the
  claim's "fallback disabled". The first variant, and the second with the flag unset or
  \<^verbatim>\<open>'false'\<close>, make no backend call that could fail. The second variant with the flag
  \<^verbatim>\<open>'true'\<close> is the only setting in which the call is made, and there a failed fetch
  does not end as a failure: the view that held a document of 7 frames ends with the demo
  document (100 frames for this random source) in the hook and in the page, under a
  success alert, switched to the results, and nothing is thrown to the caller.
\<close>

theorem remote_failure_falls_back_counterexample:
  "analyzeVideo DemoOnly (Some ''true'') (Some ''bats.mp4'') 0 60 None ready_ui
     = (ready_ui\<lparr>loading := True\<rparr>, [Delay 1500], Suspended AwaitDelay)
   \<and> analyzeVideo RealWithFallback None (Some ''bats.mp4'') 0 60 None ready_ui
     = (ready_ui\<lparr>loading := True\<rparr>, [Delay 1500], Suspended AwaitDelay)
   \<and> analyzeVideo RealWithFallback (Some ''false'') (Some ''bats.mp4'') 0 60 None ready_ui
     = (ready_ui\<lparr>loading := True\<rparr>, [Delay 1500], Suspended AwaitDelay)
   \<and> analyzeVideo RealWithFallback (Some ''true'') (Some ''bats.mp4'') 0 60 None ready_ui
     = (ready_ui\<lparr>loading := True\<rparr>, [CallApi (Some ''bats.mp4'') 0 60 None], Suspended AwaitApi)
   \<and> results (ready_ui\<lparr>results := Some (sample_doc 1)\<rparr>) = Some (sample_doc 1)
   \<and> results fallback_run = Some (dummyResult (\<lambda>k. 0))
   \<and> appResults fallback_run = Some (dummyResult (\<lambda>k. 0))
   \<and> totalFrames (sample_doc 1) = 7 \<and> totalFrames (dummyResult (\<lambda>k. 0)) = 100
   \<and> alert fallback_run
       = Some \<lparr>message = ''Demo-Analyse erfolgreich abgeschlossen'', type = Success\<rparr>
   \<and> activeSection fallback_run = ''results''
   \<and> \<not> loading fallback_run"
  by (simp add: fallback_run_def ready_ui_eq init_ui_def view_defs
      segment_defs useRealAPI_def Let_def sample_doc_def dummyResult_def)

text \<open>
  Claim C4, amended. No configuration turns the fallback off. A backend call is made
  only by the second variant with the flag \<^verbatim>\<open>'true'\<close>. When it fails with a message
  (every failure of api-real.js does), the handler reads no setting: it sets the warning
  alert that ends with the message and waits the 1500 ms; then the demo document
  replaces whatever result was stored, the success alert is set, loading is cleared,
  the document is returned to the caller, and \<^verbatim>\<open>handleAnalyze\<close> hands it to the page
  and switches to the results. No error alert is set and nothing is thrown.
\<close>

theorem remote_failure_always_falls_back:
  "\<exists>s1 s2.
     filter is_remote_call (fst (snd (analyzeVideo v env file a b u s)))
       = (if v = RealWithFallback \<and> env = Some ''true'' then [CallApi file a b u] else [])
   \<and> analyzeVideo_resume DemoOnly AwaitApi (ApiRejected (JsError m)) s = None
   \<and> analyzeVideo_resume RealWithFallback AwaitApi (ApiRejected (JsError m)) s
       = Some (s1, [Delay 1500], Suspended AwaitDelay)
   \<and> s1 = s\<lparr>alert := Some \<lparr>message = fallback_prefix @ m, type = Warning\<rparr>\<rparr>
   \<and> analyzeVideo_resume RealWithFallback AwaitDelay (DelayElapsed rnd) s1
       = Some (s2, [], Settled (Returned (Some (dummyResult rnd))))
   \<and> s2 = s\<lparr>results := Some (dummyResult rnd),
              alert := Some \<lparr>message = ''Demo-Analyse erfolgreich abgeschlossen'', type = Success\<rparr>,
              loading := False\<rparr>
   \<and> handleAnalyze_resume (Returned (Some (dummyResult rnd))) s2
       = s2\<lparr>appResults := Some (dummyResult rnd), activeSection := ''results''\<rparr>"
  by (cases v) (simp_all add: segment_defs useRealAPI_def Let_def handleAnalyze_resume_def)

section \<open>The fallback document\<close>

lemma frames_increasing: "sorted_wrt (<) (map (\<lambda>i. int i + 1) [0..<n])"
proof -
  have "sorted_wrt (\<lambda>i j. int i + 1 < int j + 1) [0..<n]"
    by (rule sorted_wrt_mono_rel [OF _ sorted_wrt_upt]) simp
  then show ?thesis by (simp add: sorted_wrt_map)
qed

lemma dummyResult_consistent:
  assumes "\<forall>k. 0 \<le> rnd k \<and> rnd k < 1"
  shows "fps (dummyResult rnd) = Some 30
    \<and> int (length (positions (dummyResult rnd))) \<le> totalFrames (dummyResult rnd)
    \<and> sorted_wrt (<) (map pos_frame (positions (dummyResult rnd)))
    \<and> sorted_wrt (<) (map mov_frame (movementsPerFrame (dummyResult rnd)))"
proof (intro conjI)
  show "fps (dummyResult rnd) = Some 30"
    by (simp add: dummyResult_def Let_def)
next
  have "rnd 8 * 50 < 50" using assms by (simp add: mult.commute)
  then have hi: "\<lfloor>rnd 8 * 50\<rfloor> < 50" by (simp add: floor_less_iff)
  have "0 \<le> rnd 0 * 500" using assms by simp
  then have lo: "0 \<le> \<lfloor>rnd 0 * 500\<rfloor>" by simp
  have len: "length (positions (dummyResult rnd)) = nat (\<lfloor>rnd 8 * 50\<rfloor> + 10)"
    by (simp add: dummyResult_def Let_def)
  have tot: "totalFrames (dummyResult rnd) = \<lfloor>rnd 0 * 500\<rfloor> + 100"
    by (simp add: dummyResult_def Let_def)
  show "int (length (positions (dummyResult rnd))) \<le> totalFrames (dummyResult rnd)"
    unfolding len tot using hi lo by linarith
next
  have "map pos_frame (map (dummy_position rnd b) [0..<n]) = map (\<lambda>i. int i + 1) [0..<n]" for b n
    by (simp add: dummy_position_def)
  then show "sorted_wrt (<) (map pos_frame (positions (dummyResult rnd)))"
    by (simp add: dummyResult_def Let_def frames_increasing del: map_map)
next
  have "map mov_frame (map (dummy_movement rnd b) [0..<n]) = map (\<lambda>i. int i + 1) [0..<n]" for b n
    by (simp add: dummy_movement_def)
  then show "sorted_wrt (<) (map mov_frame (movementsPerFrame (dummyResult rnd)))"
    by (simp add: dummyResult_def Let_def frames_increasing del: map_map)
qed

text \<open>
  Claim C5. With the backend enabled, the call goes to the backend; when it fails with a
  message, the segment sets the warning alert that ends with that message and waits the
  1500 ms of the simulated latency, storing nothing yet; when the delay is over, the
  document stored and returned has fps 30, no more positions than total frames, and
  strictly increasing frame numbers in both series. \<^verbatim>\<open>Math.random()\<close> is taken to
  return values from 0 up to, but not including, 1.
\<close>

theorem fallback_after_remote_failure:
  assumes "\<forall>k. 0 \<le> rnd k \<and> rnd k < 1"
  shows "\<exists>s1 d s2.
      analyzeVideo RealWithFallback (Some ''true'') file a b u s
        = (s\<lparr>loading := True\<rparr>, [CallApi file a b u], Suspended AwaitApi)
    \<and> analyzeVideo_resume RealWithFallback AwaitApi (ApiRejected (JsError m)) s
        = Some (s1, [Delay 1500], Suspended AwaitDelay)
    \<and> alert s1 = Some \<lparr>message = fallback_prefix @ m, type = Warning\<rparr>
    \<and> results s1 = results s
    \<and> analyzeVideo_resume RealWithFallback AwaitDelay (DelayElapsed rnd) s1
        = Some (s2, [], Settled (Returned (Some d)))
    \<and> results s2 = Some d
    \<and> fps d = Some 30
    \<and> int (length (positions d)) \<le> totalFrames d
    \<and> sorted_wrt (<) (map pos_frame (positions d))
    \<and> sorted_wrt (<) (map mov_frame (movementsPerFrame d))"
  using dummyResult_consistent [OF assms]
  by (simp add: segment_defs useRealAPI_def Let_def)

text \<open>A failed fetch, and a random source that always returns one half.\<close>

theorem fallback_after_remote_failure_witness:
  "\<exists>s1 d s2.
      analyzeVideo RealWithFallback (Some ''true'') (Some ''bats.mp4'') 0 60 None ready_ui
        = (ready_ui\<lparr>loading := True\<rparr>, [CallApi (Some ''bats.mp4'') 0 60 None], Suspended AwaitApi)
    \<and> analyzeVideo_resume RealWithFallback AwaitApi (ApiRejected (JsError ''Failed to fetch'')) ready_ui
        = Some (s1, [Delay 1500], Suspended AwaitDelay)
    \<and> alert s1 = Some \<lparr>message = fallback_prefix @ ''Failed to fetch'', type = Warning\<rparr>
    \<and> results s1 = results ready_ui
    \<and> analyzeVideo_resume RealWithFallback AwaitDelay (DelayElapsed (\<lambda>k. 1 / 2)) s1
        = Some (s2, [], Settled (Returned (Some d)))
    \<and> results s2 = Some d
    \<and> fps d = Some 30
    \<and> int (length (positions d)) \<le> totalFrames d
    \<and> sorted_wrt (<) (map pos_frame (positions d))
    \<and> sorted_wrt (<) (map mov_frame (movementsPerFrame d))"
  by (rule fallback_after_remote_failure) simp

section \<open>The loading flag\<close>

lemma try_catch_finally_settled:
  assumes "try_catch_finally r h (setLoading False) = (s', eff, Settled c)"
  shows "\<not> loading s'"
  using assms
  by (auto simp: try_catch_finally_def setLoading_def
      split: prod.splits progress.splits settle.splits)

text \<open>
  Claim C9. Whenever \<^verbatim>\<open>analyzeVideo\<close> settles, in either variant, on whatever path
  (the backend's document, the demo document, a thrown error), the state it leaves has
  the loading flag cleared; and in every state the view can reach, the flag is clear
  when no request is in flight.
\<close>

theorem settled_analysis_clears_loading:
  "(analyzeVideo_resume v ph w s = Some (s', eff, Settled c) \<longrightarrow> \<not> loading s')
   \<and> (analyzeVideo v env file a b u s = (s', eff, Settled c) \<longrightarrow> \<not> loading s')
   \<and> (inflight (run v env es init_ui) = [] \<longrightarrow> \<not> loading (run v env es init_ui))"
proof (intro conjI impI)
  assume "analyzeVideo_resume v ph w s = Some (s', eff, Settled c)"
  then show "\<not> loading s'"
    by (cases "(v, ph, w, s)" rule: analyzeVideo_resume.cases)
       (auto dest: try_catch_finally_settled)
next
  assume "analyzeVideo v env file a b u s = (s', eff, Settled c)"
  then show "\<not> loading s'"
    by (cases v) (auto simp: analyzeVideo_def dest: try_catch_finally_settled)
next
  assume "inflight (run v env es init_ui) = []"
  moreover have "one_in_flight (run v env es init_ui)"
    by (rule run_one_in_flight [OF init_one_in_flight])
  ultimately show "\<not> loading (run v env es init_ui)"
    by (simp add: one_in_flight_def)
qed

text \<open>The exit paths, from a loading view: success, fallback completion, error, and the first variant.\<close>

theorem settled_analysis_clears_loading_witness:
  "(\<exists>s'. analyzeVideo_resume RealWithFallback AwaitApi (ApiResolved (Some (sample_doc 1)))
            (ready_ui\<lparr>loading := True\<rparr>)
          = Some (s', [], Settled (Returned (Some (sample_doc 1)))) \<and> \<not> loading s')
   \<and> (\<exists>s'. analyzeVideo_resume RealWithFallback AwaitDelay (DelayElapsed (\<lambda>k. 0))
            (ready_ui\<lparr>loading := True\<rparr>)
          = Some (s', [], Settled (Returned (Some (dummyResult (\<lambda>k. 0))))) \<and> \<not> loading s')
   \<and> (\<exists>s'. analyzeVideo_resume RealWithFallback AwaitApi (ApiRejected JsUndefined)
            (ready_ui\<lparr>loading := True\<rparr>)
          = Some (s', [], Settled (Thrown (JsError (typeError_message ''undefined''))))
        \<and> \<not> loading s')
   \<and> (\<exists>s'. analyzeVideo_resume DemoOnly AwaitDelay (DelayElapsed (\<lambda>k. 0))
            (ready_ui\<lparr>loading := True\<rparr>)
          = Some (s', [], Settled (Returned (Some (dummyResult1 (\<lambda>k. 0))))) \<and> \<not> loading s')"
proof -
  have a: "\<exists>s'. analyzeVideo_resume v ph w s = Some (s', eff, Settled c) \<and> \<not> loading s'"
    if "analyzeVideo_resume v ph w s = Some (x, eff, Settled c)" for v ph w s x eff c
    using that settled_analysis_clears_loading [of v ph w s x eff c] by blast
  show ?thesis
    by (intro conjI a) (simp_all add: segment_defs Let_def)
qed

section \<open>The demo path as the default\<close>

lemma demo_step:
  assumes "env \<noteq> Some ''true''" and "AwaitApi \<notin> set (inflight s)"
  shows "AwaitApi \<notin> set (inflight (fst (step v env e s)))
         \<and> filter is_remote_call (snd (step v env e s)) = []"
proof (cases e)
  case ClickAnalyze
  with assms show ?thesis
    by (cases v) (auto simp: view_defs segment_defs useRealAPI_def)
next
  case (Wake k w)
  show ?thesis
  proof (cases "k < length (inflight s)")
    case False
    with Wake assms show ?thesis by (simp add: wake_call_def)
  next
    case True
    then have "inflight s ! k \<in> set (inflight s)" by simp
    with assms(2) have ph: "inflight s ! k = AwaitDelay"
      by (cases "inflight s ! k") auto
    have rest: "AwaitApi \<notin> set (take k (inflight s) @ drop (Suc k) (inflight s))"
      using assms(2) by (auto dest: in_set_takeD in_set_dropD)
    from Wake True ph rest assms(2) show ?thesis
      by (cases v; cases w)
         (auto simp: wake_call_def await_analyzeVideo_def handleAnalyze_resume_def
            segment_defs Let_def)
  qed
qed (use assms in \<open>auto simp: view_defs split: option.splits\<close>)

lemma demo_run:
  assumes "env \<noteq> Some ''true''" and "AwaitApi \<notin> set (inflight s)"
  shows "filter is_remote_call (run_effects v env es s) = []"
  using assms(2)
proof (induction es arbitrary: s)
  case Nil
  then show ?case by simp
next
  case (Cons e es)
  from demo_step [OF assms(1) Cons.prems, of v e] Cons.IH show ?case by simp
qed

text \<open>
  Claim C10. Unless \<^verbatim>\<open>REACT_APP_USE_REAL_API\<close> is the string \<^verbatim>\<open>'true'\<close>, a call of
  \<^verbatim>\<open>analyzeVideo\<close> in either variant sets the loading flag and asks only for the delay
  of 1500 ms; when the delay is over, the demo document of the variant is stored and
  returned under a success alert and the flag is cleared; and no sequence of events
  makes the view ask for a backend call.
\<close>

theorem demo_path_is_default:
  assumes "env \<noteq> Some ''true''"
  shows "analyzeVideo v env file a b u s = (s\<lparr>loading := True\<rparr>, [Delay 1500], Suspended AwaitDelay)
    \<and> analyzeVideo_resume RealWithFallback AwaitDelay (DelayElapsed rnd) s =
        Some (s\<lparr>results := Some (dummyResult rnd),
                alert := Some \<lparr>message = ''Demo-Analyse erfolgreich abgeschlossen'', type = Success\<rparr>,
                loading := False\<rparr>,
              [], Settled (Returned (Some (dummyResult rnd))))
    \<and> analyzeVideo_resume DemoOnly AwaitDelay (DelayElapsed rnd) s =
        Some (s\<lparr>results := Some (dummyResult1 rnd),
                alert := Some \<lparr>message = ''Analyse erfolgreich abgeschlossen'', type = Success\<rparr>,
                loading := False\<rparr>,
              [], Settled (Returned (Some (dummyResult1 rnd))))
    \<and> filter is_remote_call (run_effects v env es init_ui) = []"
proof -
  have "filter is_remote_call (run_effects v env es init_ui) = []"
    by (rule demo_run [OF assms]) (simp add: init_ui_def)
  with assms show ?thesis
    by (cases v) (simp_all add: segment_defs useRealAPI_def Let_def)
qed

text \<open>An unset variable, and the value \<^verbatim>\<open>'false'\<close>.\<close>

theorem demo_path_is_default_witness:
  "analyzeVideo RealWithFallback None (Some ''bats.mp4'') 0 60 None ready_ui
     = (ready_ui\<lparr>loading := True\<rparr>, [Delay 1500], Suspended AwaitDelay)
   \<and> run_effects RealWithFallback (Some ''false'') dispatch_events init_ui = [Delay 1500]
   \<and> filter is_remote_call (run_effects RealWithFallback (Some ''false'') dispatch_events init_ui) = []"
proof -
  have 1: "(None :: string option) \<noteq> Some ''true''" by simp
  have 2: "Some ''false'' \<noteq> Some ''true''" by simp
  have e: "run_effects RealWithFallback (Some ''false'') dispatch_events init_ui = [Delay 1500]"
    by (simp add: dispatch_events_def init_ui_def view_defs segment_defs useRealAPI_def)
  from demo_path_is_default [OF 1, of RealWithFallback "Some ''bats.mp4''" 0 60 None ready_ui]
    demo_path_is_default [OF 2, of RealWithFallback _ _ _ _ _ _ dispatch_events] e
  show ?thesis by simp
qed

section \<open>The debounce of the sensitivity\<close>

lemma first_input_arms:
  assumes "timers st = []" and "0 < nextTimerId st"
  shows "armed (fst e) (snd e) st (input e st)"
  using assms
  by (auto simp: armed_def input_def handleChange_def advance_def setTimeout_def
      clearTimeout_def Let_def split: option.splits)

lemma next_input_rearms:
  assumes "armed t x st0 st" and "t \<le> fst e" and "fst e < t + 300"
  shows "armed (fst e) (snd e) st0 (input e st)"
  using assms
  by (auto simp: armed_def input_def handleChange_def advance_def setTimeout_def
      clearTimeout_def Let_def split: option.splits)

lemma burst_stays_armed:
  assumes "armed t x st0 st" and "rapid t es"
  shows "armed (fst (last ((t, x) # es))) (snd (last ((t, x) # es))) st0 (inputs es st)"
  using assms
proof (induction es arbitrary: t x st)
  case Nil
  then show ?case by (simp add: inputs_def)
next
  case (Cons e es)
  have "armed (fst e) (snd e) st0 (input e st)"
    using Cons.prems by (auto intro: next_input_rearms)
  moreover have "rapid (fst e) es" using Cons.prems by simp
  ultimately have "armed (fst (last ((fst e, snd e) # es))) (snd (last ((fst e, snd e) # es))) st0
      (inputs es (input e st))"
    by (rule Cons.IH)
  then show ?case by (simp add: inputs_def)
qed

lemma armed_quiet:
  assumes "armed t x st0 st"
  shows "length (timers st) = 1 \<and> commits st = commits st0 \<and> tempSensitivity st = x
     \<and> (\<forall>T. T < t + 300 \<longrightarrow> commits (advance T st) = commits st0)
     \<and> (\<forall>T. t + 300 \<le> T \<longrightarrow>
           commits (advance T st) = commits st0 @ [(t + 300, x)]
           \<and> sensitivity (advance T st) = x \<and> timers (advance T st) = [])"
  using assms by (auto simp: armed_def advance_def fire_def)

text \<open>
  Claim C6. Take a settings view with no pending timer and a burst of changes, each less
  than 300 ms after the one before. After the burst exactly one timer is pending and
  nothing has been committed; nothing is committed before 300 ms have passed since the
  last change; from then on exactly one commit has happened, at that moment and with the
  last value of the burst, and no timer is left.
\<close>

theorem burst_commits_once:
  assumes "timers st = []" and "0 < nextTimerId st" and "rapid (fst e) es"
  shows "length (timers (inputs (e # es) st)) = 1
     \<and> commits (inputs (e # es) st) = commits st
     \<and> tempSensitivity (inputs (e # es) st) = snd (last (e # es))
     \<and> (\<forall>T. T < fst (last (e # es)) + 300 \<longrightarrow>
           commits (advance T (inputs (e # es) st)) = commits st)
     \<and> (\<forall>T. fst (last (e # es)) + 300 \<le> T \<longrightarrow>
           commits (advance T (inputs (e # es) st))
             = commits st @ [(fst (last (e # es)) + 300, snd (last (e # es)))]
           \<and> sensitivity (advance T (inputs (e # es) st)) = snd (last (e # es))
           \<and> timers (advance T (inputs (e # es) st)) = [])"
proof -
  have "armed (fst e) (snd e) st (input e st)"
    using assms(1,2) by (rule first_input_arms)
  then have "armed (fst (last ((fst e, snd e) # es))) (snd (last ((fst e, snd e) # es))) st
      (inputs es (input e st))"
    using assms(3) by (rule burst_stays_armed)
  then have "armed (fst (last (e # es))) (snd (last (e # es))) st (inputs (e # es) st)"
    by (simp add: inputs_def)
  then show ?thesis by (rule armed_quiet)
qed

text \<open>Ten changes 10 ms apart: one commit, at 390 ms, with the tenth value.\<close>

theorem burst_commits_once_witness:
  "length (timers (inputs burst10 fresh_settings)) = 1
   \<and> commits (advance 389 (inputs burst10 fresh_settings)) = []
   \<and> commits (advance 390 (inputs burst10 fresh_settings)) = [(390, 11 / 20)]
   \<and> sensitivity (advance 390 (inputs burst10 fresh_settings)) = 11 / 20"
proof -
  have r: "rapid (fst (0, 1 / 10))
     [(10, 3 / 20), (20, 1 / 5), (30, 1 / 4), (40, 3 / 10), (50, 7 / 20),
      (60, 2 / 5), (70, 9 / 20), (80, 1 / 2), (90, 11 / 20)]"
    by simp
  have t: "timers fresh_settings = []" and n: "0 < nextTimerId fresh_settings"
    by (simp_all add: fresh_settings_def)
  note b = burst_commits_once [OF t n r, folded burst10_def]
  have l: "last burst10 = (90, 11 / 20)" by (simp add: burst10_def)
  have c: "commits fresh_settings = []" by (simp add: fresh_settings_def)
  from b have 1: "length (timers (inputs burst10 fresh_settings)) = 1" by blast
  from b have "389 < fst (last burst10) + 300 \<longrightarrow>
      commits (advance 389 (inputs burst10 fresh_settings)) = commits fresh_settings" by blast
  then have 2: "commits (advance 389 (inputs burst10 fresh_settings)) = []"
    by (simp add: l c)
  from b have "fst (last burst10) + 300 \<le> 390 \<longrightarrow>
      commits (advance 390 (inputs burst10 fresh_settings))
        = commits fresh_settings @ [(fst (last burst10) + 300, snd (last burst10))]
      \<and> sensitivity (advance 390 (inputs burst10 fresh_settings)) = snd (last burst10)
      \<and> timers (advance 390 (inputs burst10 fresh_settings)) = []" by blast
  then have 3: "commits (advance 390 (inputs burst10 fresh_settings)) = [(390, 11 / 20)]
      \<and> sensitivity (advance 390 (inputs burst10 fresh_settings)) = 11 / 20"
    by (simp add: l c)
  from 1 2 3 show ?thesis by simp
qed

section \<open>The CSV export\<close>











end
